theory Spec2Isabelle
  imports Complex_Main
begin

section \<open>Values of the parking price service\<close>

text \<open>
  The service (\<^verbatim>\<open>app.py\<close>) works on values decoded from JSON: the tariff table
  \<^verbatim>\<open>TARIFFS\<close>, the request body and the reply of the language model. A decoded value is
  \<^verbatim>\<open>None\<close>, a bool, an int, a float, a str, a list or a dict with string keys. A dict is
  an association list in insertion order; looking a key up takes the first entry of that key.

  Python floats are idealised as exact rationals: no binary rounding, no overflow, no
  \<^verbatim>\<open>nan\<close> or \<^verbatim>\<open>inf\<close>. Strings are lists of 8-bit characters.
\<close>

datatype json =
    JNull
  | JBool bool
  | JInt int
  | JFloat rat
  | JStr string
  | JArr "json list"
  | JObj "(string \<times> json) list"

text \<open>
  The exceptions the modelled code can raise. \<open>KeyError\<close> carries the missing key, the
  others the text that \<^verbatim>\<open>str(e)\<close> gives. \<open>ProviderError\<close> stands for whatever the
  client library of the language model raises.
\<close>

datatype error =
    KeyError json
  | TypeError string
  | AttributeError string
  | IndexError string
  | ValueError string
  | ProviderError string

text \<open>A Python number keeps its tag: \<^verbatim>\<open>0\<close> is not \<^verbatim>\<open>0.0\<close>.\<close>

datatype number = PInt int | PFloat rat

fun num_val :: "number \<Rightarrow> rat" where
  "num_val (PInt i) = of_int i"
| "num_val (PFloat r) = r"

fun type_name :: "json \<Rightarrow> string" where
  "type_name JNull = ''NoneType''"
| "type_name (JBool _) = ''bool''"
| "type_name (JInt _) = ''int''"
| "type_name (JFloat _) = ''float''"
| "type_name (JStr _) = ''str''"
| "type_name (JArr _) = ''list''"
| "type_name (JObj _) = ''dict''"

text \<open>
  The values Python's arithmetic and ordering take as numbers; \<^verbatim>\<open>bool\<close> is a subclass of
  \<^verbatim>\<open>int\<close>.
\<close>

fun as_number :: "json \<Rightarrow> number option" where
  "as_number (JInt i) = Some (PInt i)"
| "as_number (JFloat r) = Some (PFloat r)"
| "as_number (JBool b) = Some (PInt (if b then 1 else 0))"
| "as_number _ = None"

text \<open>\<^verbatim>\<open>bool(v)\<close>, the test behind \<^verbatim>\<open>if not v\<close>.\<close>

fun truthy :: "json \<Rightarrow> bool" where
  "truthy JNull = False"
| "truthy (JBool b) = b"
| "truthy (JInt i) = (i \<noteq> 0)"
| "truthy (JFloat r) = (r \<noteq> 0)"
| "truthy (JStr s) = (s \<noteq> [])"
| "truthy (JArr xs) = (xs \<noteq> [])"
| "truthy (JObj kvs) = (kvs \<noteq> [])"

text \<open>
  An exception ends the computation it is raised in: \<open>and_then m f\<close> runs \<open>f\<close> on the
  value of \<open>m\<close>, or passes on the exception of \<open>m\<close>.
\<close>

definition and_then :: "error + 'a \<Rightarrow> ('a \<Rightarrow> error + 'b) \<Rightarrow> error + 'b" where
  "and_then m f = (case m of Inl e \<Rightarrow> Inl e | Inr x \<Rightarrow> f x)"

definition quoted :: "string \<Rightarrow> string" where
  \<comment> \<open>a name between single quotes, as in Python's messages\<close>
  "quoted s = CHR 0x27 # s @ [CHR 0x27]"

subsection \<open>Subscripting and \<^verbatim>\<open>dict.get\<close>\<close>

definition seq_index :: "'a list \<Rightarrow> int \<Rightarrow> 'a option" where
  \<comment> \<open>a negative index counts from the end\<close>
  "seq_index xs i =
     (let n = int (length xs); j = (if i < 0 then n + i else i)
      in if 0 \<le> j \<and> j < n then Some (xs ! nat j) else None)"

fun as_index :: "json \<Rightarrow> int option" where
  "as_index (JInt i) = Some i"
| "as_index (JBool b) = Some (if b then 1 else 0)"
| "as_index _ = None"

text \<open>\<^verbatim>\<open>container[key]\<close> for decoded values.\<close>

fun py_getitem :: "json \<Rightarrow> json \<Rightarrow> error + json" where
  "py_getitem (JObj kvs) (JStr k) =
     (case map_of kvs k of Some v \<Rightarrow> Inr v | None \<Rightarrow> Inl (KeyError (JStr k)))"
| "py_getitem (JObj kvs) (JArr xs) = Inl (TypeError (''unhashable type: '' @ quoted ''list''))"
| "py_getitem (JObj kvs) (JObj m) = Inl (TypeError (''unhashable type: '' @ quoted ''dict''))"
| "py_getitem (JObj kvs) key = Inl (KeyError key)"
| "py_getitem (JArr xs) key =
     (case as_index key of
        None \<Rightarrow> Inl (TypeError (''list indices must be integers or slices, not '' @ type_name key))
      | Some i \<Rightarrow>
          (case seq_index xs i of
             None \<Rightarrow> Inl (IndexError ''list index out of range'')
           | Some v \<Rightarrow> Inr v))"
| "py_getitem (JStr s) key =
     (case as_index key of
        None \<Rightarrow> Inl (TypeError (''string indices must be integers, not '' @ quoted (type_name key)))
      | Some i \<Rightarrow>
          (case seq_index s i of
             None \<Rightarrow> Inl (IndexError ''string index out of range'')
           | Some c \<Rightarrow> Inr (JStr [c])))"
| "py_getitem v key = Inl (TypeError (quoted (type_name v) @ '' object is not subscriptable''))"

text \<open>\<^verbatim>\<open>d.get(key, default)\<close>: only a dict has the method.\<close>

fun py_get :: "json \<Rightarrow> string \<Rightarrow> json \<Rightarrow> error + json" where
  "py_get (JObj kvs) k dflt = Inr (case map_of kvs k of Some v \<Rightarrow> v | None \<Rightarrow> dflt)"
| "py_get v k dflt = Inl (AttributeError (quoted (type_name v) @ '' object has no attribute '' @ quoted ''get''))"

section \<open>Timestamps\<close>

text \<open>
  A \<^verbatim>\<open>datetime\<close> as \<^verbatim>\<open>datetime.fromisoformat\<close> builds it: the calendar fields, and the
  offset from UTC in microseconds when the text carried one (\<open>None\<close> for a naive
  timestamp).
\<close>

record datetime =
  year :: nat
  month :: nat
  day :: nat
  hour :: nat
  minute :: nat
  second :: nat
  microsecond :: nat
  utcoffset :: "int option"

definition is_leap :: "nat \<Rightarrow> bool" where
  "is_leap y = (y mod 4 = 0 \<and> (y mod 100 \<noteq> 0 \<or> y mod 400 = 0))"

definition days_before_year :: "nat \<Rightarrow> nat" where
  "days_before_year y = (y - 1) * 365 + (y - 1) div 4 - (y - 1) div 100 + (y - 1) div 400"

definition days_before_month :: "nat \<Rightarrow> nat \<Rightarrow> nat" where
  \<comment> \<open>the days of the year before the first of the month, for months 1 to 12\<close>
  "days_before_month y m =
     (if 1 \<le> m \<and> m \<le> 12
      then [0, 0, 31, 59, 90, 120, 151, 181, 212, 243, 273, 304, 334] ! m
           + (if 2 < m \<and> is_leap y then 1 else 0)
      else 0)"

definition toordinal :: "datetime \<Rightarrow> nat" where
  \<comment> \<open>the proleptic Gregorian day number; 1 January of year 1 is day 1\<close>
  "toordinal d = days_before_year (year d) + days_before_month (year d) (month d) + day d"

definition weekday :: "datetime \<Rightarrow> nat" where
  \<comment> \<open>Monday is 0, Saturday 5, Sunday 6; the calendar date as written, whatever the offset\<close>
  "weekday d = (toordinal d + 6) mod 7"

definition micros :: "datetime \<Rightarrow> int" where
  \<comment> \<open>microseconds from the start of day 0 to the wall-clock reading\<close>
  "micros d =
     (((int (toordinal d) * 24 + int (hour d)) * 60 + int (minute d)) * 60 + int (second d))
       * 1000000 + int (microsecond d)"

text \<open>
  \<^verbatim>\<open>a - b\<close> on two timestamps is a \<^verbatim>\<open>timedelta\<close>, here its length in microseconds. Two
  naive timestamps are subtracted as written, two aware ones after conversion to UTC, and
  a naive with an aware one raises.
\<close>

definition dt_sub :: "datetime \<Rightarrow> datetime \<Rightarrow> error + int" where
  "dt_sub a b =
     (case (utcoffset a, utcoffset b) of
        (None, None) \<Rightarrow> Inr (micros a - micros b)
      | (Some oa, Some ob) \<Rightarrow> Inr ((micros a - oa) - (micros b - ob))
      | _ \<Rightarrow> Inl (TypeError ''can't subtract offset-naive and offset-aware datetimes''))"

definition total_seconds :: "int \<Rightarrow> rat" where
  "total_seconds td = of_int td / 1000000"

section \<open>The pricing engine\<close>

subsection \<open>Number operations\<close>

definition py_int :: "rat \<Rightarrow> int" where
  \<comment> \<open>\<^verbatim>\<open>int(x)\<close> truncates towards zero\<close>
  "py_int x = (if x < 0 then \<lceil>x\<rceil> else \<lfloor>x\<rfloor>)"

definition py_mul :: "number \<Rightarrow> number \<Rightarrow> number" where
  "py_mul a b =
     (case (a, b) of
        (PInt i, PInt j) \<Rightarrow> PInt (i * j)
      | _ \<Rightarrow> PFloat (num_val a * num_val b))"

definition py_min :: "number \<Rightarrow> number \<Rightarrow> number" where
  \<comment> \<open>\<^verbatim>\<open>min(a, b)\<close> keeps the first argument unless the second is smaller\<close>
  "py_min a b = (if num_val b < num_val a then b else a)"

definition round_half_even :: "rat \<Rightarrow> int" where
  "round_half_even x =
     (let f = \<lfloor>x\<rfloor>; d = x - of_int f
      in if d < 1 / 2 then f
         else if 1 / 2 < d then f + 1
         else if even f then f else f + 1)"

definition round2 :: "rat \<Rightarrow> rat" where
  \<comment> \<open>to the nearest hundredth, ties to the even one\<close>
  "round2 r = of_int (round_half_even (r * 100)) / 100"

fun py_round2 :: "number \<Rightarrow> number" where
  \<comment> \<open>\<^verbatim>\<open>round(x, 2)\<close>: an int is returned as it is, a float is rounded\<close>
  "py_round2 (PInt i) = PInt i"
| "py_round2 (PFloat r) = PFloat (round2 r)"

definition float_le :: "rat \<Rightarrow> json \<Rightarrow> error + bool" where
  \<comment> \<open>\<^verbatim>\<open>x <= v\<close> for a float \<open>x\<close>\<close>
  "float_le x v =
     (case as_number v of
        Some n \<Rightarrow> Inr (x \<le> num_val n)
      | None \<Rightarrow> Inl (TypeError (quoted ''<='' @ '' not supported between instances of ''
                 @ quoted ''float'' @ '' and '' @ quoted (type_name v))))"

definition need_number :: "json \<Rightarrow> error + number" where
  \<comment> \<open>A tariff field used in arithmetic. For a value that is not a number the model
      raises the \<open>TypeError\<close> at the first use; Python raises it there or, for a str or
      list under an integer factor, on a later line of \<^verbatim>\<open>compute_price\<close>.\<close>
  "need_number v =
     (case as_number v of
        Some n \<Rightarrow> Inr n
      | None \<Rightarrow> Inl (TypeError (''unsupported operand type(s): '' @ quoted (type_name v))))"

subsection \<open>\<^verbatim>\<open>compute_price\<close>\<close>

definition billable_hours :: "json \<Rightarrow> rat \<Rightarrow> number" where
  \<comment> \<open>lines 71 to 74\<close>
  "billable_hours rounding_rule hours =
     (if rounding_rule = JStr ''ceil_to_next_hour''
      then (if hours = of_int (py_int hours) then PInt (py_int hours) else PInt (py_int hours + 1))
      else PFloat hours)"

definition weekend :: "datetime \<Rightarrow> datetime \<Rightarrow> bool" where
  \<comment> \<open>line 76\<close>
  "weekend start_dt end_dt = (weekday start_dt \<ge> 5 \<or> weekday end_dt \<ge> 5)"

definition multiplier :: "datetime \<Rightarrow> datetime \<Rightarrow> json \<Rightarrow> error + json" where
  \<comment> \<open>line 77\<close>
  "multiplier start_dt end_dt tariff =
     (if weekend start_dt end_dt then py_get tariff ''weekend_multiplier'' (JFloat 1)
      else Inr (JFloat 1))"

definition price_of :: "number \<Rightarrow> json \<Rightarrow> json \<Rightarrow> error + number" where
  \<comment> \<open>lines 79 to 81, from the billable hours, the tariff and the multiplier\<close>
  "price_of billable tariff mult =
     and_then (py_getitem tariff (JStr ''hourly_rate'')) (\<lambda>rate_v.
     and_then (need_number rate_v) (\<lambda>rate.
     and_then (need_number mult) (\<lambda>m.
     let price = py_mul (py_mul billable rate) m in
     and_then (py_getitem tariff (JStr ''daily_cap'')) (\<lambda>cap_v.
     and_then (need_number cap_v) (\<lambda>cap.
     let price = py_min price cap in
     Inr (py_round2 price))))))"

definition compute_price :: "datetime \<Rightarrow> datetime \<Rightarrow> json \<Rightarrow> error + number" where
  "compute_price start_dt end_dt tariff =
     and_then (dt_sub end_dt start_dt) (\<lambda>duration.
     let total_minutes = total_seconds duration / 60 in
     and_then (py_get tariff ''grace_minutes'' (JInt 0)) (\<lambda>grace.
     and_then (float_le total_minutes grace) (\<lambda>within_grace.
     if within_grace then Inr (PInt 0)
     else
       let hours = total_minutes / 60 in
       and_then (py_get tariff ''rounding_rule'' JNull) (\<lambda>rule.
       and_then (multiplier start_dt end_dt tariff) (\<lambda>mult.
       price_of (billable_hours rule hours) tariff mult)))))"

section \<open>The collaborators outside the program\<close>

text \<open>
  What the program calls and does not define: the tariff table read at start-up, the
  text generation call of the provider (\<^verbatim>\<open>model.generate_content(prompt).text\<close>),
  \<^verbatim>\<open>json.loads\<close>, \<^verbatim>\<open>datetime.fromisoformat\<close> and \<^verbatim>\<open>repr\<close>. They are parameters of the model,
  each returning its value or the exception it raises.
\<close>

record env =
  TARIFFS :: json
  generate_content :: "string \<Rightarrow> error + string"
  json_loads :: "string \<Rightarrow> error + json"
  fromisoformat :: "string \<Rightarrow> error + datetime"
  py_repr :: "json \<Rightarrow> string"

definition py_str :: "env \<Rightarrow> json \<Rightarrow> string" where
  \<comment> \<open>\<^verbatim>\<open>str(v)\<close>, also what an f-string puts in for \<^verbatim>\<open>{v}\<close>\<close>
  "py_str e v = (case v of JStr s \<Rightarrow> s | _ \<Rightarrow> py_repr e v)"

fun exn_str :: "env \<Rightarrow> error \<Rightarrow> string" where
  \<comment> \<open>\<^verbatim>\<open>str(e)\<close> of an exception\<close>
  "exn_str e (KeyError k) = py_repr e k"
| "exn_str e (TypeError m) = m"
| "exn_str e (AttributeError m) = m"
| "exn_str e (IndexError m) = m"
| "exn_str e (ValueError m) = m"
| "exn_str e (ProviderError m) = m"

section \<open>The language model gateway\<close>

definition call_gemini :: "env \<Rightarrow> string \<Rightarrow> string \<Rightarrow> error + string" where
  "call_gemini e system_prompt user_prompt =
     (let prompt = system_prompt @ [CHR 0x0A] @ user_prompt
      in generate_content e prompt)"

section \<open>The response extractor\<close>

subsection \<open>String methods\<close>

definition py_isspace :: "char \<Rightarrow> bool" where
  \<comment> \<open>the characters \<^verbatim>\<open>str.strip()\<close> removes, among the first 256 code points\<close>
  "py_isspace c =
     (let n = (of_char c :: nat)
      in (9 \<le> n \<and> n \<le> 13) \<or> (28 \<le> n \<and> n \<le> 32) \<or> n = 133 \<or> n = 160)"

definition strip :: "string \<Rightarrow> string" where
  "strip s = rev (dropWhile py_isspace (rev (dropWhile py_isspace s)))"

definition startswith :: "string \<Rightarrow> string \<Rightarrow> bool" where
  "startswith s p = (take (length p) s = p)"

definition py_find :: "string \<Rightarrow> char \<Rightarrow> int" where
  \<comment> \<open>the index of the first occurrence, or \<open>-1\<close>\<close>
  "py_find s c = (if c \<in> set s then int (length (takeWhile (\<lambda>x. x \<noteq> c) s)) else - 1)"

definition py_rfind :: "string \<Rightarrow> char \<Rightarrow> int" where
  \<comment> \<open>the index of the last occurrence, or \<open>-1\<close>\<close>
  "py_rfind s c =
     (if c \<in> set s then int (length s) - 1 - int (length (takeWhile (\<lambda>x. x \<noteq> c) (rev s)))
      else - 1)"

subsection \<open>\<^verbatim>\<open>parse_gemini_json\<close>\<close>

definition cleaned :: "string \<Rightarrow> string" where
  \<comment> \<open>lines 41 to 54: the text handed to \<^verbatim>\<open>json.loads\<close>\<close>
  "cleaned gemini_response =
     (let text = strip gemini_response;
          text = (if startswith text ''```json'' then drop 7 text else text);
          text = (if startswith text ''```'' then drop 3 text else text);
          json_start = py_find text CHR ''{'';
          text = (if json_start \<noteq> - 1 then drop (nat json_start) text else text);
          json_end = py_rfind text CHR ''}'';
          text = (if json_end \<noteq> - 1 then take (nat (json_end + 1)) text else text)
      in text)"

definition parse_gemini_json :: "env \<Rightarrow> string \<Rightarrow> error + json" where
  "parse_gemini_json e gemini_response =
     (case json_loads e (cleaned gemini_response) of
        Inr v \<Rightarrow> Inr v
      | Inl ex \<Rightarrow> Inl (ValueError (''Failed to parse Gemini JSON: '' @ exn_str e ex)))"

section \<open>The tariff store\<close>

definition get_tariff :: "env \<Rightarrow> json \<Rightarrow> json \<Rightarrow> json \<Rightarrow> error + json" where
  \<comment> \<open>\<^verbatim>\<open>None\<close> is \<open>JNull\<close>; only a \<open>KeyError\<close> is caught\<close>
  "get_tariff e state area vehicle_type =
     (case and_then (py_getitem (TARIFFS e) state) (\<lambda>areas.
           and_then (py_getitem areas area) (\<lambda>vehicles.
           py_getitem vehicles vehicle_type)) of
        Inr v \<Rightarrow> Inr v
      | Inl (KeyError k) \<Rightarrow> Inr JNull
      | Inl ex \<Rightarrow> Inl ex)"

section \<open>The request handler\<close>

record response =
  status :: nat
  body :: json

definition jsonify :: "(string \<times> json) list \<Rightarrow> nat \<Rightarrow> response" where
  "jsonify kvs code = \<lparr>status = code, body = JObj kvs\<rparr>"

fun number_json :: "number \<Rightarrow> json" where
  "number_json (PInt i) = JInt i"
| "number_json (PFloat r) = JFloat r"

definition system_prompt :: string where
  \<comment> \<open>lines 94 to 100\<close>
  "system_prompt =
     ''You extract and validate inputs for a parking tariff calculator. ''
     @ ''Respond ONLY with valid JSON, starting with '{' and matching this schema: ''
     @ ''{'inputs': {'start_datetime': str, 'end_datetime': str, 'area': str, 'state': str, 'vehicle_type': str}, ''
     @ [CHR 0x27] @ ''validation': {'is_valid': bool, 'errors': list}}. ''
     @ ''Do not include any text, explanation, or code block formatting. Do not compute prices.''"

definition user_prompt :: "env \<Rightarrow> json \<Rightarrow> error + string" where
  \<comment> \<open>lines 86 to 93: the fields of the request body are read in the order of the text\<close>
  "user_prompt e data =
     and_then (py_getitem data (JStr ''start_date'')) (\<lambda>start_date.
     and_then (py_getitem data (JStr ''start_time'')) (\<lambda>start_time.
     and_then (py_getitem data (JStr ''end_date'')) (\<lambda>end_date.
     and_then (py_getitem data (JStr ''end_time'')) (\<lambda>end_time.
     and_then (py_getitem data (JStr ''area'')) (\<lambda>area.
     and_then (py_getitem data (JStr ''state'')) (\<lambda>state.
     and_then (py_getitem data (JStr ''vehicle_type'')) (\<lambda>vehicle_type.
     Inr (''Start date: '' @ py_str e start_date @ '', start time: '' @ py_str e start_time
          @ '', end date: '' @ py_str e end_date @ '', end time: '' @ py_str e end_time
          @ '', area: '' @ py_str e area @ '', state: '' @ py_str e state
          @ '', vehicle: '' @ py_str e vehicle_type @ ''.''
          @ '' Extract and validate these inputs for a parking tariff calculator. ''
          @ ''Return ONLY JSON with: normalized ISO-8601 datetimes, area, state, vehicle_type, ''
          @ ''and any validation errors. Do not compute prices.''))))))))"

definition parse_datetime :: "env \<Rightarrow> json \<Rightarrow> error + datetime" where
  \<comment> \<open>\<^verbatim>\<open>datetime.fromisoformat(v)\<close> for a decoded value\<close>
  "parse_datetime e v =
     (case v of
        JStr s \<Rightarrow> fromisoformat e s
      | _ \<Rightarrow> Inl (TypeError ''fromisoformat: argument must be str''))"

definition no_tariff_message :: "env \<Rightarrow> json \<Rightarrow> json \<Rightarrow> json \<Rightarrow> string" where
  \<comment> \<open>line 117\<close>
  "no_tariff_message e state area vehicle_type =
     ''No tariff found for '' @ py_str e state @ '' / '' @ py_str e area
       @ '' / '' @ py_str e vehicle_type"

definition guarded :: "env \<Rightarrow> string \<Rightarrow> error + response" where
  \<comment> \<open>lines 103 to 124, the body of the \<^verbatim>\<open>try\<close>\<close>
  "guarded e prompt =
     and_then (call_gemini e system_prompt prompt) (\<lambda>gemini_response.
     and_then (parse_gemini_json e gemini_response) (\<lambda>parsed.
     and_then (py_getitem parsed (JStr ''validation'')) (\<lambda>validation.
     and_then (py_getitem validation (JStr ''is_valid'')) (\<lambda>is_valid.
     if \<not> truthy is_valid
     then and_then (py_getitem validation (JStr ''errors'')) (\<lambda>errors.
          Inr (jsonify [(''error'', errors)] 400))
     else
       and_then (py_getitem parsed (JStr ''inputs'')) (\<lambda>inputs.
       and_then (py_getitem inputs (JStr ''start_datetime'')) (\<lambda>start_text.
       and_then (parse_datetime e start_text) (\<lambda>start_dt.
       and_then (py_getitem inputs (JStr ''end_datetime'')) (\<lambda>end_text.
       and_then (parse_datetime e end_text) (\<lambda>end_dt.
       and_then (py_getitem inputs (JStr ''state'')) (\<lambda>state.
       and_then (py_getitem inputs (JStr ''area'')) (\<lambda>area.
       and_then (py_getitem inputs (JStr ''vehicle_type'')) (\<lambda>vehicle_type.
       and_then (get_tariff e state area vehicle_type) (\<lambda>tariff.
       if \<not> truthy tariff
       then Inr (jsonify [(''error'', JStr (no_tariff_message e state area vehicle_type))] 400)
       else
         and_then (compute_price start_dt end_dt tariff) (\<lambda>price.
         Inr (jsonify [(''inputs'', inputs), (''tariff'', tariff),
                       (''price'', number_json price)] 200)))))))))))))))"

definition predict_parking_price :: "env \<Rightarrow> json \<Rightarrow> error + response" where
  \<comment> \<open>\<open>data\<close> is \<^verbatim>\<open>request.json\<close>. \<open>Inl\<close> is an exception that leaves the handler: the
      prompt is built before the \<^verbatim>\<open>try\<close>.\<close>
  "predict_parking_price e data =
     and_then (user_prompt e data) (\<lambda>prompt.
     case guarded e prompt of
       Inr r \<Rightarrow> Inr r
     | Inl ex \<Rightarrow> Inr (jsonify [(''error'', JStr (exn_str e ex))] 500))"

section \<open>Example data\<close>

text \<open>A naive timestamp on a whole minute.\<close>

definition naive :: "nat \<Rightarrow> nat \<Rightarrow> nat \<Rightarrow> nat \<Rightarrow> nat \<Rightarrow> datetime" where
  "naive y mo d h mi =
     \<lparr>year = y, month = mo, day = d, hour = h, minute = mi, second = 0, microsecond = 0,
      utcoffset = None\<rparr>"

text \<open>
  A tariff table with one configured tariff and one entry that is an empty mapping.
\<close>

definition example_tariffs :: json where
  "example_tariffs =
     JObj [(''KA'', JObj [(''MG Road'', JObj
       [(''car'', JObj [(''hourly_rate'', JInt 2), (''daily_cap'', JInt 20),
                        (''grace_minutes'', JInt 15),
                        (''rounding_rule'', JStr ''ceil_to_next_hour'')]),
        (''bike'', JObj [])])])]"

text \<open>
  A reply of the language model: the members of a JSON object, the object as text, and the
  value \<^verbatim>\<open>json.loads\<close> decodes it to.
\<close>

definition example_members :: string where
  \<open>example_members =
     ''"inputs": {"start_datetime": "2024-01-08T10:00:00", ''
     @ ''"end_datetime": "2024-01-08T11:30:00", "area": "MG Road", "state": "KA", ''
     @ ''"vehicle_type": "bike"}, "validation": {"is_valid": true, "errors": []}''\<close>

definition example_object :: string where
  "example_object = ''{'' @ example_members @ ''}''"

definition example_parsed :: json where
  "example_parsed =
     JObj [(''inputs'', JObj [(''start_datetime'', JStr ''2024-01-08T10:00:00''),
                              (''end_datetime'', JStr ''2024-01-08T11:30:00''),
                              (''area'', JStr ''MG Road''), (''state'', JStr ''KA''),
                              (''vehicle_type'', JStr ''bike'')]),
           (''validation'', JObj [(''is_valid'', JBool True), (''errors'', JArr [])])]"

text \<open>
  An environment for the examples. The provider answers with the object in a fenced block;
  the library functions are given at the arguments the examples reach and raise elsewhere.
\<close>

definition example_env :: env where
  "example_env =
     \<lparr>TARIFFS = example_tariffs,
      generate_content = (\<lambda>prompt. Inr (''```json'' @ [CHR 0x0A] @ example_object @ [CHR 0x0A] @ ''```'')),
      json_loads = (\<lambda>s. if s = example_object then Inr example_parsed
                         else Inl (ValueError ''Expecting value: line 1 column 1 (char 0)'')),
      fromisoformat = (\<lambda>s. if s = ''2024-01-08T10:00:00'' then Inr (naive 2024 1 8 10 0)
                            else if s = ''2024-01-08T11:30:00'' then Inr (naive 2024 1 8 11 30)
                            else Inl (ValueError (''Invalid isoformat string: '' @ quoted s))),
      py_repr = (\<lambda>v. case v of JStr s \<Rightarrow> quoted s | _ \<Rightarrow> ''...'')\<rparr>"

definition example_request :: json where
  "example_request =
     JObj [(''start_date'', JStr ''2024-01-08''), (''start_time'', JStr ''10:00''),
           (''end_date'', JStr ''2024-01-08''), (''end_time'', JStr ''11:30''),
           (''area'', JStr ''MG Road''), (''state'', JStr ''KA''),
           (''vehicle_type'', JStr ''bike'')]"

section \<open>Conditions on the inputs\<close>

text \<open>
  The tariff table is a mapping of mappings of mappings along the path of the three keys,
  and the path ends before a tariff is reached: the state, the area of that state or the
  vehicle type of that area is not a key.
\<close>

definition key_path_absent :: "json \<Rightarrow> string \<Rightarrow> string \<Rightarrow> string \<Rightarrow> bool" where
  "key_path_absent tariffs state area vehicle_type =
     (case tariffs of
        JObj states \<Rightarrow>
          (case map_of states state of
             None \<Rightarrow> True
           | Some (JObj areas) \<Rightarrow>
               (case map_of areas area of
                  None \<Rightarrow> True
                | Some (JObj vehicles) \<Rightarrow> map_of vehicles vehicle_type = None
                | Some _ \<Rightarrow> False)
           | Some _ \<Rightarrow> False)
      | _ \<Rightarrow> False)"

text \<open>
  The fields of the request body that lines 86 to 93 read.
\<close>

definition request_fields :: "string list" where
  "request_fields = [''start_date'', ''start_time'', ''end_date'', ''end_time'', ''area'',
     ''state'', ''vehicle_type'']"

section \<open>Properties\<close>

subsection \<open>Evaluation and rounding\<close>

lemmas calendar_defs =
  naive_def weekday_def toordinal_def days_before_year_def days_before_month_def is_leap_def
  micros_def dt_sub_def total_seconds_def

lemma floor_numeral_div_rat:
  "\<lfloor>numeral a / numeral b :: rat\<rfloor> = numeral a div numeral b"
  by (metis floor_divide_of_int_eq of_int_numeral)

lemma ceiling_numeral_div_rat:
  "\<lceil>numeral a / numeral b :: rat\<rceil> = - (- numeral a div numeral b)"
  by (metis ceiling_def floor_divide_of_int_eq minus_divide_left of_int_minus of_int_numeral)

lemma ceiling_neg_numeral_div_rat:
  "\<lceil>- (numeral a / numeral b) :: rat\<rceil> = - (numeral a div numeral b)"
  by (simp add: ceiling_def floor_numeral_div_rat)

lemma floor_neg_numeral_div_rat:
  "\<lfloor>- (numeral a / numeral b) :: rat\<rfloor> = - numeral a div numeral b"
  by (metis floor_divide_of_int_eq minus_divide_left of_int_minus of_int_numeral)










lemmas pricing_defs =
  compute_price_def price_of_def multiplier_def weekend_def billable_hours_def float_le_def
  need_number_def and_then_def py_int_def py_mul_def py_min_def round2_def round_half_even_def

lemma floor_one_div_rat: "\<lfloor>1 / numeral b :: rat\<rfloor> = 1 div numeral b"
  by (metis floor_divide_of_int_eq of_int_1 of_int_numeral)

lemma ceiling_neg_one_div_rat: "\<lceil>- (1 / numeral b) :: rat\<rceil> = - (1 div numeral b)"
  by (simp add: ceiling_def floor_one_div_rat)

lemmas numeral_div_rat =
  floor_numeral_div_rat ceiling_numeral_div_rat floor_neg_numeral_div_rat
  ceiling_neg_numeral_div_rat floor_one_div_rat ceiling_neg_one_div_rat


lemma compute_price_within_grace:
  assumes "dt_sub end_dt start_dt = Inr d"
    and "tariff = JObj kvs"
    and "as_number (case map_of kvs ''grace_minutes'' of Some v \<Rightarrow> v | None \<Rightarrow> JInt 0) = Some g"
    and "total_seconds d / 60 \<le> num_val g"
  shows "compute_price start_dt end_dt tariff = Inr (PInt 0)"
  using assms by (simp add: compute_price_def and_then_def float_le_def)

lemma compute_price_past_grace:
  assumes "dt_sub end_dt start_dt = Inr d"
    and "tariff = JObj kvs"
    and "as_number (case map_of kvs ''grace_minutes'' of Some v \<Rightarrow> v | None \<Rightarrow> JInt 0) = Some g"
    and "\<not> total_seconds d / 60 \<le> num_val g"
  shows "compute_price start_dt end_dt tariff =
     and_then (multiplier start_dt end_dt tariff)
       (price_of (billable_hours (case map_of kvs ''rounding_rule'' of Some v \<Rightarrow> v | None \<Rightarrow> JNull)
          (total_seconds d / 60 / 60)) tariff)"
  using assms by (simp add: compute_price_def and_then_def float_le_def)

lemma billable_hours_ceiling_iff:
  "(billable_hours (JStr ''ceil_to_next_hour'') h = PInt \<lceil>h\<rceil>) = (0 \<le> h \<or> h = of_int \<lceil>h\<rceil>)"
proof (cases "h = of_int \<lceil>h\<rceil>")
  case True
  then obtain n where "h = of_int n" ..
  then show ?thesis
    by (simp add: billable_hours_def py_int_def)
next
  case False
  then have nf: "h \<noteq> of_int \<lfloor>h\<rfloor>"
    by (metis ceiling_of_int)
  then have "\<lceil>h\<rceil> = \<lfloor>h\<rfloor> + 1"
    by (simp add: ceiling_altdef)
  then show ?thesis
    using False nf by (simp add: billable_hours_def py_int_def)
qed

lemma weekday_weekend: "(5 \<le> weekday d) = (weekday d \<in> {5, 6})"
proof -
  have "weekday d < 7"
    by (simp add: weekday_def)
  then show ?thesis
    by auto
qed

subsection \<open>The daily cap\<close>




subsection \<open>The grace period\<close>

text \<open>
  C2. When the two timestamps can be subtracted, the tariff is a mapping and the duration in
  minutes is at most \<^verbatim>\<open>grace_minutes\<close> (0 when the key is absent), \<^verbatim>\<open>compute_price\<close>
  returns the integer 0. Nothing else of the tariff is read: the result is the same
  whatever the rounding rule, the multiplier, the rate and the cap are, and also when the
  rate and the cap are missing.
\<close>

theorem grace_returns_zero:
  assumes "dt_sub end_dt start_dt = Inr d"
    and "tariff = JObj kvs"
    and "as_number (case map_of kvs ''grace_minutes'' of Some v \<Rightarrow> v | None \<Rightarrow> JInt 0) = Some g"
    and "total_seconds d / 60 \<le> num_val g"
  shows "compute_price start_dt end_dt tariff = Inr (PInt 0)"
  using assms by (rule compute_price_within_grace)

text \<open>
  Fifteen minutes on a Saturday under a grace period of 15 minutes, with a tariff that has
  neither a rate nor a cap.
\<close>

theorem grace_returns_zero_witness:
  "compute_price (naive 2024 1 6 10 0) (naive 2024 1 6 10 15)
     (JObj [(''grace_minutes'', JInt 15), (''rounding_rule'', JStr ''ceil_to_next_hour''),
            (''weekend_multiplier'', JFloat (3 / 2))]) = Inr (PInt 0)"
proof -
  have d: "dt_sub (naive 2024 1 6 10 15) (naive 2024 1 6 10 0) = Inr 900000000"
    by (simp add: calendar_defs)
  have g: "as_number (case map_of [(''grace_minutes'', JInt 15),
      (''rounding_rule'', JStr ''ceil_to_next_hour''), (''weekend_multiplier'', JFloat (3 / 2))]
      ''grace_minutes'' of Some v \<Rightarrow> v | None \<Rightarrow> JInt 0) = Some (PInt 15)"
    by simp
  have le: "total_seconds 900000000 / 60 \<le> num_val (PInt 15)"
    by (simp add: total_seconds_def)
  show ?thesis
    by (rule grace_returns_zero [OF d refl g le])
qed

subsection \<open>Rounding to the next hour\<close>

text \<open>
  Line 72 rounds up by hand: \<^verbatim>\<open>int(hours)\<close> when that equals the hours, and
  \<^verbatim>\<open>int(hours) + 1\<close> otherwise. \<^verbatim>\<open>int\<close> truncates towards zero, so by
  \<open>billable_hours_ceiling_iff\<close> the result is the hours rounded up exactly when the hours
  are not negative or are a whole number. Negative hours pass the grace check of line 67
  only when the tariff's \<^verbatim>\<open>grace_minutes\<close> is negative; the tariff file is loaded as it
  is (lines 27 and 28), and its \<^verbatim>\<open>grace_minutes\<close> may be any number.

  C3. Under the rule \<^verbatim>\<open>ceil_to_next_hour\<close> and past the grace check the billable hours
  are meant to be the hours rounded up to the next whole number. The code misses this on
  a stay from 12:00 to 10:30 of the same Monday under a tariff with \<^verbatim>\<open>grace_minutes\<close> at
  -120, 2 per hour and a cap of 20: the duration is -90 minutes, which is not within the
  grace period, the hours are -1.5, \<^verbatim>\<open>int(-1.5)\<close> is -1 and the billable hours are
  \<^verbatim>\<open>-1 + 1 = 0\<close>, while -1.5 rounded up is -1. The price returned is 0.0; with -1
  billable hour the same lines 76 to 81 give -2.0.
\<close>

theorem ceil_to_next_hour_negative_hours:
  "dt_sub (naive 2024 1 8 10 30) (naive 2024 1 8 12 0) = Inr (- 5400000000)
   \<and> float_le (total_seconds (- 5400000000) / 60) (JInt (- 120)) = Inr False
   \<and> billable_hours (JStr ''ceil_to_next_hour'') (total_seconds (- 5400000000) / 60 / 60) = PInt 0
   \<and> \<lceil>total_seconds (- 5400000000) / 60 / 60\<rceil> = - 1
   \<and> compute_price (naive 2024 1 8 12 0) (naive 2024 1 8 10 30)
        (JObj [(''hourly_rate'', JInt 2), (''daily_cap'', JInt 20), (''grace_minutes'', JInt (- 120)),
               (''rounding_rule'', JStr ''ceil_to_next_hour'')]) = Inr (PFloat 0)
   \<and> and_then (multiplier (naive 2024 1 8 12 0) (naive 2024 1 8 10 30)
        (JObj [(''hourly_rate'', JInt 2), (''daily_cap'', JInt 20), (''grace_minutes'', JInt (- 120)),
               (''rounding_rule'', JStr ''ceil_to_next_hour'')]))
       (price_of (PInt (- 1))
        (JObj [(''hourly_rate'', JInt 2), (''daily_cap'', JInt 20), (''grace_minutes'', JInt (- 120)),
               (''rounding_rule'', JStr ''ceil_to_next_hour'')])) = Inr (PFloat (- 2))"
  by (simp add: calendar_defs pricing_defs numeral_div_rat)

subsection \<open>The weekend multiplier\<close>

text \<open>
  C4. Past the grace check the price is computed with the tariff's \<^verbatim>\<open>weekend_multiplier\<close>
  (1.0 when the key is absent) if the weekday of the start or of the end is Saturday (5) or
  Sunday (6), and with exactly 1.0 otherwise; only the two endpoints are looked at.
\<close>

theorem weekend_multiplier_endpoints:
  assumes "dt_sub end_dt start_dt = Inr d"
    and "tariff = JObj kvs"
    and "as_number (case map_of kvs ''grace_minutes'' of Some v \<Rightarrow> v | None \<Rightarrow> JInt 0) = Some g"
    and "\<not> total_seconds d / 60 \<le> num_val g"
  shows "compute_price start_dt end_dt tariff =
     price_of
       (billable_hours (case map_of kvs ''rounding_rule'' of Some v \<Rightarrow> v | None \<Rightarrow> JNull)
          (total_seconds d / 60 / 60))
       tariff
       (if weekday start_dt \<in> {5, 6} \<or> weekday end_dt \<in> {5, 6}
        then (case map_of kvs ''weekend_multiplier'' of Some v \<Rightarrow> v | None \<Rightarrow> JFloat 1)
        else JFloat 1)"
proof -
  have "multiplier start_dt end_dt tariff =
     Inr (if weekday start_dt \<in> {5, 6} \<or> weekday end_dt \<in> {5, 6}
          then (case map_of kvs ''weekend_multiplier'' of Some v \<Rightarrow> v | None \<Rightarrow> JFloat 1)
          else JFloat 1)"
    using assms(2) by (simp add: multiplier_def weekend_def weekday_weekend)
  then show ?thesis
    using compute_price_past_grace [OF assms] by (simp add: and_then_def)
qed

text \<open>
  At 1 per hour with a weekend multiplier of 2: from Friday 22:00 to Monday 08:00 the stay
  spans the weekend and neither endpoint is in it, so the 58 hours cost 58.0; from Friday
  22:00 to Saturday 08:00 the end is a Saturday and the 10 hours cost 20.0.
\<close>

theorem weekend_multiplier_endpoints_witness:
  "compute_price (naive 2024 1 5 22 0) (naive 2024 1 8 8 0)
     (JObj [(''hourly_rate'', JInt 1), (''daily_cap'', JInt 1000), (''weekend_multiplier'', JInt 2)])
     = Inr (PFloat 58)
   \<and> compute_price (naive 2024 1 5 22 0) (naive 2024 1 6 8 0)
     (JObj [(''hourly_rate'', JInt 1), (''daily_cap'', JInt 1000), (''weekend_multiplier'', JInt 2)])
     = Inr (PFloat 20)"
proof -
  let ?kvs = "[(''hourly_rate'', JInt 1), (''daily_cap'', JInt 1000), (''weekend_multiplier'', JInt 2)]"
  have g: "as_number (case map_of ?kvs ''grace_minutes'' of Some v \<Rightarrow> v | None \<Rightarrow> JInt 0)
      = Some (PInt 0)"
    by simp
  have d1: "dt_sub (naive 2024 1 8 8 0) (naive 2024 1 5 22 0) = Inr 208800000000"
    by (simp add: calendar_defs)
  have p1: "\<not> total_seconds 208800000000 / 60 \<le> num_val (PInt 0)"
    by (simp add: total_seconds_def)
  have w1: "weekday (naive 2024 1 5 22 0) = 4" "weekday (naive 2024 1 8 8 0) = 0"
    by (simp_all add: calendar_defs)
  have d2: "dt_sub (naive 2024 1 6 8 0) (naive 2024 1 5 22 0) = Inr 36000000000"
    by (simp add: calendar_defs)
  have p2: "\<not> total_seconds 36000000000 / 60 \<le> num_val (PInt 0)"
    by (simp add: total_seconds_def)
  have w2: "weekday (naive 2024 1 6 8 0) = 5"
    by (simp add: calendar_defs)
  have "compute_price (naive 2024 1 5 22 0) (naive 2024 1 8 8 0) (JObj ?kvs) = Inr (PFloat 58)"
    using weekend_multiplier_endpoints [OF d1 refl g p1] w1
    by (simp add: pricing_defs total_seconds_def)
  moreover
  have "compute_price (naive 2024 1 5 22 0) (naive 2024 1 6 8 0) (JObj ?kvs) = Inr (PFloat 20)"
    using weekend_multiplier_endpoints [OF d2 refl g p2] w1 w2
    by (simp add: pricing_defs total_seconds_def)
  ultimately show ?thesis
    by simp
qed

subsection \<open>Negative durations\<close>

text \<open>
  C5 (amended). A pair of timestamps with the end before the start is not rejected. Under
  a tariff whose \<^verbatim>\<open>grace_minutes\<close> is absent or a number that is not negative, the
  negative duration stops at the grace check: \<^verbatim>\<open>compute_price\<close> returns the integer 0,
  and rounding, multiplier and clamp are not reached.
\<close>

theorem negative_duration_returns_zero:
  assumes "dt_sub end_dt start_dt = Inr d"
    and "d < 0"
    and "tariff = JObj kvs"
    and "as_number (case map_of kvs ''grace_minutes'' of Some v \<Rightarrow> v | None \<Rightarrow> JInt 0) = Some g"
    and "0 \<le> num_val g"
  shows "compute_price start_dt end_dt tariff = Inr (PInt 0)"
proof -
  have "total_seconds d / 60 \<le> 0"
    using assms(2) by (simp add: total_seconds_def divide_le_0_iff)
  then have "total_seconds d / 60 \<le> num_val g"
    using assms(5) by simp
  with assms(1,3,4) show ?thesis
    by (rule compute_price_within_grace)
qed

text \<open>
  A stay that ends 90 minutes before it starts, under a tariff without \<^verbatim>\<open>grace_minutes\<close>.
\<close>

theorem negative_duration_returns_zero_witness:
  "compute_price (naive 2024 1 8 12 0) (naive 2024 1 8 10 30)
     (JObj [(''hourly_rate'', JInt 2), (''daily_cap'', JInt 20),
            (''rounding_rule'', JStr ''ceil_to_next_hour'')]) = Inr (PInt 0)"
proof -
  let ?kvs = "[(''hourly_rate'', JInt 2), (''daily_cap'', JInt 20),
            (''rounding_rule'', JStr ''ceil_to_next_hour'')]"
  have d: "dt_sub (naive 2024 1 8 10 30) (naive 2024 1 8 12 0) = Inr (- 5400000000)"
    by (simp add: calendar_defs)
  have neg: "(- 5400000000 :: int) < 0"
    by simp
  have g: "as_number (case map_of ?kvs ''grace_minutes'' of Some v \<Rightarrow> v | None \<Rightarrow> JInt 0)
      = Some (PInt 0)"
    by simp
  have "0 \<le> num_val (PInt 0)"
    by simp
  from negative_duration_returns_zero [OF d neg refl g this] show ?thesis .
qed

text \<open>
  As stated the claim fails twice. With \<^verbatim>\<open>grace_minutes\<close> at -60 and the rule
  \<^verbatim>\<open>ceil_to_next_hour\<close>, a stay ending 30 minutes before it starts is billed one hour
  (\<^verbatim>\<open>int(-0.5) + 1\<close>) and costs 2.0, a positive price. And under the default grace
  period the negative minutes do not reach the arithmetic: an empty tariff gives 0, where
  the arithmetic would raise \<open>KeyError\<close> for the missing rate.
\<close>

theorem negative_duration_counterexample:
  "compute_price (naive 2024 1 8 10 0) (naive 2024 1 8 9 30)
     (JObj [(''hourly_rate'', JInt 2), (''daily_cap'', JInt 20), (''grace_minutes'', JInt (- 60)),
            (''rounding_rule'', JStr ''ceil_to_next_hour'')]) = Inr (PFloat 2)
   \<and> \<not> num_val (PFloat 2) \<le> 0
   \<and> compute_price (naive 2024 1 8 10 0) (naive 2024 1 8 9 30) (JObj []) = Inr (PInt 0)
   \<and> price_of (PFloat (- 1 / 2)) (JObj []) (JFloat 1) = Inl (KeyError (JStr ''hourly_rate''))"
  by (simp add: pricing_defs calendar_defs numeral_div_rat)

subsection \<open>The text handed to the parser\<close>

text \<open>
  What \<open>cleaned\<close> leaves of a text that holds an object: with no opening brace before the
  object and no closing brace after it, the text is cut down to the object, whatever
  surrounds it.
\<close>

lemma braces_not_space: "\<not> py_isspace CHR ''{''" "\<not> py_isspace CHR ''}''" "\<not> py_isspace CHR ''`''"
  by (simp_all add: py_isspace_def)

lemma strip_around:
  assumes "\<not> py_isspace x" and "\<not> py_isspace y"
  shows "strip (a @ x # m @ y # b)
    = dropWhile py_isspace a @ x # m @ y # rev (dropWhile py_isspace (rev b))"
proof -
  have "dropWhile py_isspace (a @ x # m @ y # b) = dropWhile py_isspace a @ x # m @ y # b"
    using assms(1) by (rule dropWhile_append3)
  moreover have "dropWhile py_isspace (rev b @ y # rev m @ x # rev (dropWhile py_isspace a))
      = dropWhile py_isspace (rev b) @ y # rev m @ x # rev (dropWhile py_isspace a)"
    using assms(2) by (rule dropWhile_append3)
  ultimately show ?thesis
    by (simp add: strip_def)
qed

lemma startswith_before:
  assumes "startswith (a @ x # r) p" and "x \<notin> set p"
  shows "length p \<le> length a"
proof (rule ccontr)
  assume "\<not> length p \<le> length a"
  then have less: "length a < length p"
    by simp
  have "take (length p) (a @ x # r) = p"
    using assms(1) by (simp add: startswith_def)
  then have "p ! length a = (a @ x # r) ! length a"
    using less by (metis nth_take)
  then have "p ! length a = x"
    by simp
  with less have "x \<in> set p"
    by (metis nth_mem)
  with assms(2) show False
    by simp
qed

lemma unfence_shape:
  assumes "x \<notin> set a" and "x \<notin> set p" and "n = length p"
  shows "\<exists>a'. (if startswith (a @ x # r) p then drop n (a @ x # r) else a @ x # r)
       = a' @ x # r \<and> x \<notin> set a'"
proof (cases "startswith (a @ x # r) p")
  case True
  then have "length p \<le> length a"
    using assms(2) by (rule startswith_before)
  then have "drop n (a @ x # r) = drop n a @ x # r"
    using assms(3) by simp
  moreover have "x \<notin> set (drop n a)"
    using assms(1) by (auto dest: in_set_dropD)
  ultimately show ?thesis
    using True by auto
next
  case False
  then show ?thesis
    using assms(1) by auto
qed

lemma py_find_first:
  assumes "x \<notin> set a"
  shows "py_find (a @ x # r) x = int (length a)"
proof -
  have "takeWhile (\<lambda>y. y \<noteq> x) (a @ x # r) = a @ takeWhile (\<lambda>y. y \<noteq> x) (x # r)"
    using assms by (intro takeWhile_append2) auto
  then have "takeWhile (\<lambda>y. y \<noteq> x) (a @ x # r) = a"
    by simp
  then show ?thesis
    by (simp add: py_find_def)
qed

lemma py_rfind_last:
  assumes "y \<notin> set b"
  shows "py_rfind (t @ y # b) y = int (length t)"
proof -
  have "takeWhile (\<lambda>z. z \<noteq> y) (rev b @ y # rev t)
      = rev b @ takeWhile (\<lambda>z. z \<noteq> y) (y # rev t)"
    using assms by (intro takeWhile_append2) auto
  then have "takeWhile (\<lambda>z. z \<noteq> y) (rev b @ y # rev t) = rev b"
    by simp
  then show ?thesis
    by (simp add: py_rfind_def)
qed

lemma cleaned_object:
  assumes "CHR ''{'' \<notin> set a" and "CHR ''}'' \<notin> set b"
  shows "cleaned (a @ CHR ''{'' # m @ CHR ''}'' # b) = CHR ''{'' # m @ [CHR ''}'']"
proof -
  define B where "B = rev (dropWhile py_isspace (rev b))"
  define r where "r = m @ CHR ''}'' # B"
  have B: "CHR ''}'' \<notin> set B"
    using assms(2) unfolding B_def by (auto dest: set_dropWhileD)
  have A: "CHR ''{'' \<notin> set (dropWhile py_isspace a)"
    using assms(1) by (auto dest: set_dropWhileD)
  have s: "strip (a @ CHR ''{'' # m @ CHR ''}'' # b) = dropWhile py_isspace a @ CHR ''{'' # r"
    unfolding r_def B_def by (rule strip_around) (rule braces_not_space)+
  obtain a1 where a1: "(if startswith (dropWhile py_isspace a @ CHR ''{'' # r) ''```json''
      then drop 7 (dropWhile py_isspace a @ CHR ''{'' # r)
      else dropWhile py_isspace a @ CHR ''{'' # r) = a1 @ CHR ''{'' # r"
    and n1: "CHR ''{'' \<notin> set a1"
    using unfence_shape [OF A, of "''```json''" 7 r] by auto
  obtain a2 where a2: "(if startswith (a1 @ CHR ''{'' # r) ''```''
      then drop 3 (a1 @ CHR ''{'' # r)
      else a1 @ CHR ''{'' # r) = a2 @ CHR ''{'' # r"
    and n2: "CHR ''{'' \<notin> set a2"
    using unfence_shape [OF n1, of "''```''" 3 r] by auto
  have f: "py_find (a2 @ CHR ''{'' # r) CHR ''{'' = int (length a2)"
    using n2 by (rule py_find_first)
  have l: "py_rfind ((CHR ''{'' # m) @ CHR ''}'' # B) CHR ''}'' = int (length (CHR ''{'' # m))"
    using B by (rule py_rfind_last)
  have "cleaned (a @ CHR ''{'' # m @ CHR ''}'' # b)
      = (let text = a2 @ CHR ''{'' # r;
             json_start = py_find text CHR ''{'';
             text = (if json_start \<noteq> - 1 then drop (nat json_start) text else text);
             json_end = py_rfind text CHR ''}'';
             text = (if json_end \<noteq> - 1 then take (nat (json_end + 1)) text else text)
         in text)"
    unfolding cleaned_def Let_def s a1 a2 ..
  also have "\<dots> = (let text = CHR ''{'' # r;
             json_end = py_rfind text CHR ''}'';
             text = (if json_end \<noteq> - 1 then take (nat (json_end + 1)) text else text)
         in text)"
    by (simp add: Let_def f)
  also have "\<dots> = CHR ''{'' # m @ [CHR ''}'']"
  proof -
    have "nat (2 + int (length m)) = Suc (Suc (length m))"
      by arith
    then show ?thesis
      using l by (simp add: Let_def r_def)
  qed
  finally show ?thesis .
qed

subsection \<open>Failure of the extractor\<close>



subsection \<open>Fenced blocks\<close>

text \<open>
  C8. For every object payload, that is a text from an opening brace to a closing brace,
  the extractor gives the same result on the payload inside a fenced block
  (\<^verbatim>\<open>```json\<close>, the payload, \<^verbatim>\<open>```\<close>, with any brace-free text such as a line break
  between the fence and the payload) as on the payload alone; when the payload is valid
  JSON, both return the value \<^verbatim>\<open>json.loads\<close> decodes it to.
\<close>

theorem fenced_block_same_value:
  assumes "CHR ''{'' \<notin> set s1" and "CHR ''}'' \<notin> set s2"
  shows "parse_gemini_json e (''```json'' @ s1 @ CHR ''{'' # m @ CHR ''}'' # s2 @ ''```'')
       = parse_gemini_json e (CHR ''{'' # m @ [CHR ''}''])
    \<and> (json_loads e (CHR ''{'' # m @ [CHR ''}'']) = Inr v
        \<longrightarrow> parse_gemini_json e (''```json'' @ s1 @ CHR ''{'' # m @ CHR ''}'' # s2 @ ''```'') = Inr v
          \<and> parse_gemini_json e (CHR ''{'' # m @ [CHR ''}'']) = Inr v)"
proof -
  have "cleaned ((''```json'' @ s1) @ CHR ''{'' # m @ CHR ''}'' # (s2 @ ''```''))
      = CHR ''{'' # m @ [CHR ''}'']"
    using assms by (intro cleaned_object) simp_all
  then have fenced: "cleaned (''```json'' @ s1 @ CHR ''{'' # m @ CHR ''}'' # s2 @ ''```'')
      = CHR ''{'' # m @ [CHR ''}'']"
    by simp
  have "cleaned ([] @ CHR ''{'' # m @ CHR ''}'' # []) = CHR ''{'' # m @ [CHR ''}'']"
    by (intro cleaned_object) simp_all
  then have bare: "cleaned (CHR ''{'' # m @ [CHR ''}'']) = CHR ''{'' # m @ [CHR ''}'']"
    by simp
  show ?thesis
    using fenced bare by (simp add: parse_gemini_json_def)
qed

text \<open>
  The example reply in a fenced block with line breaks, and the same object bare.
\<close>

theorem fenced_block_same_value_witness:
  "parse_gemini_json example_env (''```json'' @ [CHR 0x0A] @ example_object @ [CHR 0x0A] @ ''```'')
     = Inr example_parsed
   \<and> parse_gemini_json example_env example_object = Inr example_parsed"
proof -
  have l: "json_loads example_env (CHR ''{'' # example_members @ [CHR ''}'']) = Inr example_parsed"
    by (simp add: example_env_def example_object_def)
  from fenced_block_same_value
    [of "[CHR 0x0A]" "[CHR 0x0A]" example_env example_members example_parsed] l
  show ?thesis
    by (simp add: example_object_def)
qed

subsection \<open>Lookups of unconfigured tariffs\<close>

text \<open>
  C9. When the tariff table is a mapping of mappings of mappings and the path of state,
  area and vehicle type ends at any of the three levels, \<^verbatim>\<open>get_tariff\<close> returns
  \<^verbatim>\<open>None\<close>: it returns, and raises no exception.
\<close>

theorem get_tariff_absent:
  assumes "key_path_absent (TARIFFS e) state area vehicle_type"
  shows "get_tariff e (JStr state) (JStr area) (JStr vehicle_type) = Inr JNull"
proof -
  obtain states where t: "TARIFFS e = JObj states"
    using assms by (cases "TARIFFS e") (simp_all add: key_path_absent_def)
  show ?thesis
  proof (cases "map_of states state")
    case None
    then show ?thesis
      by (simp add: get_tariff_def and_then_def t)
  next
    case s: (Some sv)
    then obtain areas where sv: "sv = JObj areas"
      using assms t by (cases sv) (simp_all add: key_path_absent_def)
    show ?thesis
    proof (cases "map_of areas area")
      case None
      then show ?thesis
        by (simp add: get_tariff_def and_then_def t s sv)
    next
      case a: (Some av)
      then obtain vehicles where av: "av = JObj vehicles"
        using assms t s sv by (cases av) (simp_all add: key_path_absent_def)
      have "map_of vehicles vehicle_type = None"
        using assms t s sv a av by (simp add: key_path_absent_def)
      then show ?thesis
        by (simp add: get_tariff_def and_then_def t s sv a av)
    qed
  qed
qed

text \<open>
  In the example table: a vehicle type that is missing, an area that is missing and a
  state that is missing.
\<close>

theorem get_tariff_absent_witness:
  "key_path_absent (TARIFFS example_env) ''KA'' ''MG Road'' ''truck''
   \<and> get_tariff example_env (JStr ''KA'') (JStr ''MG Road'') (JStr ''truck'') = Inr JNull
   \<and> key_path_absent (TARIFFS example_env) ''KA'' ''Brigade Road'' ''car''
   \<and> get_tariff example_env (JStr ''KA'') (JStr ''Brigade Road'') (JStr ''car'') = Inr JNull
   \<and> key_path_absent (TARIFFS example_env) ''TN'' ''MG Road'' ''car''
   \<and> get_tariff example_env (JStr ''TN'') (JStr ''MG Road'') (JStr ''car'') = Inr JNull"
proof -
  have a: "key_path_absent (TARIFFS example_env) ''KA'' ''MG Road'' ''truck''"
    by (simp add: key_path_absent_def example_env_def example_tariffs_def)
  have b: "key_path_absent (TARIFFS example_env) ''KA'' ''Brigade Road'' ''car''"
    by (simp add: key_path_absent_def example_env_def example_tariffs_def)
  have c: "key_path_absent (TARIFFS example_env) ''TN'' ''MG Road'' ''car''"
    by (simp add: key_path_absent_def example_env_def example_tariffs_def)
  from get_tariff_absent [OF a] get_tariff_absent [OF b] get_tariff_absent [OF c] a b c
  show ?thesis
    by simp
qed

subsection \<open>Exceptions in the request handler\<close>

lemma and_then_Inr: "and_then (Inr x) f = f x"
  by (simp add: and_then_def)

lemma user_prompt_complete:
  assumes "\<forall>k \<in> set request_fields. map_of kvs k \<noteq> None"
  shows "\<exists>prompt. user_prompt e (JObj kvs) = Inr prompt"
proof -
  have "\<exists>v. map_of kvs ''start_date'' = Some v" "\<exists>v. map_of kvs ''start_time'' = Some v"
    "\<exists>v. map_of kvs ''end_date'' = Some v" "\<exists>v. map_of kvs ''end_time'' = Some v"
    "\<exists>v. map_of kvs ''area'' = Some v" "\<exists>v. map_of kvs ''state'' = Some v"
    "\<exists>v. map_of kvs ''vehicle_type'' = Some v"
    using assms by (simp_all add: request_fields_def)
  then show ?thesis
    by (auto simp add: user_prompt_def and_then_def)
qed

lemma predict_parking_price_escapes:
  "(predict_parking_price e data = Inl ex) = (user_prompt e data = Inl ex)"
proof (cases "user_prompt e data")
  case (Inl a)
  then show ?thesis
    by (simp add: predict_parking_price_def and_then_def)
next
  case (Inr p)
  then show ?thesis
    by (cases "guarded e p") (simp_all add: predict_parking_price_def and_then_def)
qed

text \<open>
  C6 (amended). The \<^verbatim>\<open>try\<close> of the handler starts at line 102, after the prompt has been
  built from the request body. An exception leaves the handler exactly when building the
  prompt raises it; every exception raised inside the \<^verbatim>\<open>try\<close>, by the provider call, the
  extractor, the reading of the extracted fields, the parsing of the timestamps, the
  tariff lookup or the pricing, is answered with status 500 and a JSON body whose
  \<^verbatim>\<open>error\<close> field is the text of the exception. For a request body that is an object
  with all seven fields the handler always returns a response.
\<close>

theorem handler_catches_inside_try:
  "((predict_parking_price e data = Inl ex) = (user_prompt e data = Inl ex))
   \<and> (user_prompt e data = Inr prompt \<and> guarded e prompt = Inl ex
        \<longrightarrow> predict_parking_price e data = Inr (jsonify [(''error'', JStr (exn_str e ex))] 500))
   \<and> ((\<forall>k \<in> set request_fields. map_of kvs k \<noteq> None)
        \<longrightarrow> (\<exists>r. predict_parking_price e (JObj kvs) = Inr r))"
proof -
  have "\<exists>r. predict_parking_price e (JObj kvs) = Inr r"
    if h: "\<forall>k \<in> set request_fields. map_of kvs k \<noteq> None"
  proof -
    obtain prompt where p: "user_prompt e (JObj kvs) = Inr prompt"
      using user_prompt_complete [OF h] by blast
    have ne: "predict_parking_price e (JObj kvs) \<noteq> Inl x" for x
      using p by (simp add: predict_parking_price_escapes)
    show ?thesis
    proof (cases "predict_parking_price e (JObj kvs)")
      case (Inl x)
      then show ?thesis
        using ne by simp
    next
      case (Inr r)
      then show ?thesis
        by simp
    qed
  qed
  then show ?thesis
    by (simp add: predict_parking_price_escapes) (simp add: predict_parking_price_def and_then_def)
qed

text \<open>
  A complete request: a provider that raises, and a provider that answers with text that
  is not JSON, are both answered with status 500 and the text of the exception.
\<close>

theorem handler_catches_inside_try_witness:
  "(\<exists>r. predict_parking_price example_env example_request = Inr r)
   \<and> predict_parking_price
     (example_env\<lparr>generate_content := \<lambda>prompt. Inl (ProviderError ''429 Resource exhausted'')\<rparr>)
     example_request
   = Inr (jsonify [(''error'', JStr ''429 Resource exhausted'')] 500)
   \<and> predict_parking_price
     (example_env\<lparr>generate_content := \<lambda>prompt. Inr ''I cannot help with that.''\<rparr>)
     example_request
   = Inr (jsonify [(''error'',
        JStr ''Failed to parse Gemini JSON: Expecting value: line 1 column 1 (char 0)'')] 500)"
proof -
  let ?e1 = "example_env\<lparr>generate_content := \<lambda>prompt. Inl (ProviderError ''429 Resource exhausted'')\<rparr>"
  let ?e2 = "example_env\<lparr>generate_content := \<lambda>prompt. Inr ''I cannot help with that.''\<rparr>"
  let ?kvs = "[(''start_date'', JStr ''2024-01-08''), (''start_time'', JStr ''10:00''),
        (''end_date'', JStr ''2024-01-08''), (''end_time'', JStr ''11:30''),
        (''area'', JStr ''MG Road''), (''state'', JStr ''KA''),
        (''vehicle_type'', JStr ''bike'')]"
  have f: "\<forall>k \<in> set request_fields. map_of ?kvs k \<noteq> None"
    by (simp add: request_fields_def)
  obtain p1 where p1: "user_prompt ?e1 example_request = Inr p1"
    using user_prompt_complete [OF f, of ?e1] by (auto simp add: example_request_def)
  obtain p2 where p2: "user_prompt ?e2 example_request = Inr p2"
    using user_prompt_complete [OF f, of ?e2] by (auto simp add: example_request_def)
  have g1: "guarded ?e1 p1 = Inl (ProviderError ''429 Resource exhausted'')"
    by (simp add: guarded_def call_gemini_def and_then_def)
  have c: "cleaned ''I cannot help with that.'' = ''I cannot help with that.''"
    by (simp add: cleaned_def strip_def py_isspace_def startswith_def py_find_def py_rfind_def)
  have g2: "guarded ?e2 p2
      = Inl (ValueError ''Failed to parse Gemini JSON: Expecting value: line 1 column 1 (char 0)'')"
    by (simp add: guarded_def call_gemini_def and_then_def parse_gemini_json_def c
        example_env_def example_object_def)
  have r1: "predict_parking_price ?e1 example_request
      = Inr (jsonify [(''error'', JStr ''429 Resource exhausted'')] 500)"
    using handler_catches_inside_try
      [of ?e1 example_request "ProviderError ''429 Resource exhausted''" p1] p1 g1
    by simp
  have r2: "predict_parking_price ?e2 example_request
      = Inr (jsonify [(''error'',
          JStr ''Failed to parse Gemini JSON: Expecting value: line 1 column 1 (char 0)'')] 500)"
    using handler_catches_inside_try
      [of ?e2 example_request
        "ValueError ''Failed to parse Gemini JSON: Expecting value: line 1 column 1 (char 0)''" p2]
      p2 g2
    by simp
  have r3: "\<exists>r. predict_parking_price example_env example_request = Inr r"
    using handler_catches_inside_try [of example_env _ _ _ ?kvs] f
    by (simp add: example_request_def)
  from r1 r2 r3 show ?thesis
    by blast
qed

text \<open>
  As stated the claim fails for a missing field of the request body: with only
  \<^verbatim>\<open>start_date\<close> given, \<^verbatim>\<open>data['start_time']\<close> raises \<^verbatim>\<open>KeyError\<close> at line 87, before
  the \<^verbatim>\<open>try\<close>, and the exception leaves the handler instead of becoming its JSON answer.
\<close>

theorem missing_field_escapes_counterexample:
  "predict_parking_price example_env (JObj [(''start_date'', JStr ''2024-01-08'')])
     = Inl (KeyError (JStr ''start_time''))
   \<and> predict_parking_price example_env (JObj [(''start_date'', JStr ''2024-01-08'')])
     \<noteq> Inr (jsonify [(''error'', JStr (exn_str example_env (KeyError (JStr ''start_time''))))] 500)"
  by (simp add: predict_parking_price_def user_prompt_def and_then_def)

subsection \<open>Falsy tariff entries\<close>

text \<open>
  C10. When the request reaches the tariff lookup and the lookup returns a falsy value,
  be it \<^verbatim>\<open>None\<close> for an unconfigured triple or a configured entry such as an empty
  mapping, the handler answers with status 400 and the message
  \<^verbatim>\<open>No tariff found for\<close> state, area and vehicle type: the answer depends on the truth
  value of the entry only.
\<close>

theorem falsy_tariff_not_found:
  assumes "user_prompt e data = Inr prompt"
    and "call_gemini e system_prompt prompt = Inr gemini_response"
    and "parse_gemini_json e gemini_response = Inr parsed"
    and "py_getitem parsed (JStr ''validation'') = Inr validation"
    and "py_getitem validation (JStr ''is_valid'') = Inr is_valid"
    and "truthy is_valid"
    and "py_getitem parsed (JStr ''inputs'') = Inr inputs"
    and "py_getitem inputs (JStr ''start_datetime'') = Inr start_text"
    and "parse_datetime e start_text = Inr start_dt"
    and "py_getitem inputs (JStr ''end_datetime'') = Inr end_text"
    and "parse_datetime e end_text = Inr end_dt"
    and "py_getitem inputs (JStr ''state'') = Inr state"
    and "py_getitem inputs (JStr ''area'') = Inr area"
    and "py_getitem inputs (JStr ''vehicle_type'') = Inr vehicle_type"
    and "get_tariff e state area vehicle_type = Inr tariff"
    and "\<not> truthy tariff"
  shows "predict_parking_price e data
     = Inr (jsonify [(''error'', JStr (no_tariff_message e state area vehicle_type))] 400)"
proof -
  have "guarded e prompt
     = Inr (jsonify [(''error'', JStr (no_tariff_message e state area vehicle_type))] 400)"
    unfolding guarded_def using assms(2-16) by (simp add: and_then_Inr)
  then show ?thesis
    using assms(1) by (simp add: predict_parking_price_def and_then_Inr)
qed

text \<open>
  The example request asks for a bike on MG Road, whose entry in the example table is an
  empty mapping; with an empty table the lookup returns \<^verbatim>\<open>None\<close> and the answer is the
  same.
\<close>

theorem falsy_tariff_not_found_witness:
  "get_tariff example_env (JStr ''KA'') (JStr ''MG Road'') (JStr ''bike'') = Inr (JObj [])
   \<and> predict_parking_price example_env example_request
     = Inr (jsonify [(''error'', JStr ''No tariff found for KA / MG Road / bike'')] 400)
   \<and> get_tariff (example_env\<lparr>TARIFFS := JObj []\<rparr>) (JStr ''KA'') (JStr ''MG Road'') (JStr ''bike'')
     = Inr JNull
   \<and> predict_parking_price (example_env\<lparr>TARIFFS := JObj []\<rparr>) example_request
     = Inr (jsonify [(''error'', JStr ''No tariff found for KA / MG Road / bike'')] 400)"
proof -
  let ?raw = "''```json'' @ [CHR 0x0A] @ example_object @ [CHR 0x0A] @ ''```''"
  have "cleaned ((''```json'' @ [CHR 0x0A]) @ CHR ''{'' # example_members @ CHR ''}'' # ([CHR 0x0A] @ ''```''))
      = CHR ''{'' # example_members @ [CHR ''}'']"
    by (intro cleaned_object) simp_all
  then have c: "cleaned ?raw = example_object"
    by (simp add: example_object_def)
  have run: "predict_parking_price e example_request
     = Inr (jsonify [(''error'', JStr (no_tariff_message e (JStr ''KA'') (JStr ''MG Road'') (JStr ''bike'')))] 400)"
    if env: "generate_content e = generate_content example_env"
         "json_loads e = json_loads example_env"
         "fromisoformat e = fromisoformat example_env"
      and t: "get_tariff e (JStr ''KA'') (JStr ''MG Road'') (JStr ''bike'') = Inr tariff"
         "\<not> truthy tariff"
    for e tariff
  proof -
    obtain prompt where p: "user_prompt e example_request = Inr prompt"
      by (simp add: user_prompt_def example_request_def and_then_def)
    have g: "call_gemini e system_prompt prompt = Inr ?raw"
      by (simp add: call_gemini_def env example_env_def)
    have j: "parse_gemini_json e ?raw = Inr example_parsed"
      using c by (simp add: parse_gemini_json_def env example_env_def)
    show ?thesis
    proof (rule falsy_tariff_not_found [OF p g j _ _ _ _ _ _ _ _ _ _ _ t])
      show "py_getitem example_parsed (JStr ''validation'')
          = Inr (JObj [(''is_valid'', JBool True), (''errors'', JArr [])])"
        by (simp add: example_parsed_def)
      show "py_getitem (JObj [(''is_valid'', JBool True), (''errors'', JArr [])]) (JStr ''is_valid'')
          = Inr (JBool True)"
        by simp
      show "truthy (JBool True)"
        by simp
      show "py_getitem example_parsed (JStr ''inputs'')
          = Inr (JObj [(''start_datetime'', JStr ''2024-01-08T10:00:00''),
                       (''end_datetime'', JStr ''2024-01-08T11:30:00''),
                       (''area'', JStr ''MG Road''), (''state'', JStr ''KA''),
                       (''vehicle_type'', JStr ''bike'')])"
        by (simp add: example_parsed_def)
      show "py_getitem (JObj [(''start_datetime'', JStr ''2024-01-08T10:00:00''),
                       (''end_datetime'', JStr ''2024-01-08T11:30:00''),
                       (''area'', JStr ''MG Road''), (''state'', JStr ''KA''),
                       (''vehicle_type'', JStr ''bike'')]) (JStr ''start_datetime'')
          = Inr (JStr ''2024-01-08T10:00:00'')"
        by simp
      show "parse_datetime e (JStr ''2024-01-08T10:00:00'') = Inr (naive 2024 1 8 10 0)"
        by (simp add: parse_datetime_def env) (simp add: example_env_def)
      show "py_getitem (JObj [(''start_datetime'', JStr ''2024-01-08T10:00:00''),
                       (''end_datetime'', JStr ''2024-01-08T11:30:00''),
                       (''area'', JStr ''MG Road''), (''state'', JStr ''KA''),
                       (''vehicle_type'', JStr ''bike'')]) (JStr ''end_datetime'')
          = Inr (JStr ''2024-01-08T11:30:00'')"
        by simp
      show "parse_datetime e (JStr ''2024-01-08T11:30:00'') = Inr (naive 2024 1 8 11 30)"
        by (simp add: parse_datetime_def env) (simp add: example_env_def)
      show "py_getitem (JObj [(''start_datetime'', JStr ''2024-01-08T10:00:00''),
                       (''end_datetime'', JStr ''2024-01-08T11:30:00''),
                       (''area'', JStr ''MG Road''), (''state'', JStr ''KA''),
                       (''vehicle_type'', JStr ''bike'')]) (JStr ''state'') = Inr (JStr ''KA'')"
        by simp
      show "py_getitem (JObj [(''start_datetime'', JStr ''2024-01-08T10:00:00''),
                       (''end_datetime'', JStr ''2024-01-08T11:30:00''),
                       (''area'', JStr ''MG Road''), (''state'', JStr ''KA''),
                       (''vehicle_type'', JStr ''bike'')]) (JStr ''area'') = Inr (JStr ''MG Road'')"
        by simp
      show "py_getitem (JObj [(''start_datetime'', JStr ''2024-01-08T10:00:00''),
                       (''end_datetime'', JStr ''2024-01-08T11:30:00''),
                       (''area'', JStr ''MG Road''), (''state'', JStr ''KA''),
                       (''vehicle_type'', JStr ''bike'')]) (JStr ''vehicle_type'') = Inr (JStr ''bike'')"
        by simp
    qed
  qed
  have t1: "get_tariff example_env (JStr ''KA'') (JStr ''MG Road'') (JStr ''bike'') = Inr (JObj [])"
    by (simp add: get_tariff_def and_then_def example_env_def example_tariffs_def)
  have t2: "get_tariff (example_env\<lparr>TARIFFS := JObj []\<rparr>) (JStr ''KA'') (JStr ''MG Road'') (JStr ''bike'')
      = Inr JNull"
    by (simp add: get_tariff_def and_then_def)
  have m: "no_tariff_message e (JStr ''KA'') (JStr ''MG Road'') (JStr ''bike'')
      = ''No tariff found for KA / MG Road / bike''" for e
    by (simp add: no_tariff_message_def py_str_def)
  from run [of example_env, OF refl refl refl t1] run [of "example_env\<lparr>TARIFFS := JObj []\<rparr>", OF _ _ _ t2]
    t1 t2 show ?thesis
    by (simp add: m)
qed

end
